theory Spec2Isabelle
  imports Complex_Main "HOL-Library.AList" "HOL-Library.Char_ord" "HOL-Library.List_Lexorder"
begin

section \<open>Conventions\<close>

text \<open>
  Python floats are modelled by the reals, so the statements below are about exact
  arithmetic, with one exception: the product that is truncated to the halftime index
  is the machine's, which the model leaves open. Exceptions are values of \<open>py_error\<close>; a function that can raise returns
  \<open>py_error + 'a\<close> with \<open>Inl\<close> for the exception. Python dictionaries, which keep their
  insertion order, are association lists: \<open>map_of\<close> reads, \<open>AList.update\<close> writes in
  place or appends a new key at the end, \<open>AList.delete\<close> removes.
\<close>

datatype py_error = JSONDecodeError | ZeroDivisionError | FileNotFoundError

section \<open>Batch backtester (advanced\_simulate.py)\<close>

subsection \<open>Smoothing filter\<close>

definition START_BANKROLL :: real where
  "START_BANKROLL = 20"

definition FLAT_BET_AMOUNT :: real where
  "FLAT_BET_AMOUNT = 2"

text \<open>
  \<open>incremental_ema_smooth(alpha)\<close> returns the closure \<open>smooth_next\<close> over the variable
  \<open>last\<close>, written \<open>lastv\<close> here. The closure's state is passed explicitly:
  \<open>smooth_next alpha lastv new_point\<close> returns the new value of the variable and the
  value the call returns. The arithmetic is
  left polymorphic: nothing below the type \<open>real\<close> is assumed of \<open>+\<close>, \<open>-\<close> and \<open>*\<close>.
\<close>

definition smooth_next ::
  "'a::{one,plus,minus,times} \<Rightarrow> 'a option \<Rightarrow> 'a \<Rightarrow> 'a option \<times> 'a" where
  "smooth_next alpha lastv new_point =
     (let last' = (case lastv of
                     None \<Rightarrow> new_point
                   | Some l \<Rightarrow> alpha * new_point + (1 - alpha) * l)
      in (Some last', last'))"

text \<open>
  The loop of \<open>simulate_position\<close> that fills \<open>smoothed_full\<close>: a null price appends
  null and leaves the smoother untouched, a defined price is fed to the smoother.
\<close>

fun smooth_all ::
  "'a::{one,plus,minus,times} \<Rightarrow> 'a option \<Rightarrow> 'a option list \<Rightarrow> 'a option list" where
  "smooth_all alpha lastv [] = []"
| "smooth_all alpha lastv (None # ps) = None # smooth_all alpha lastv ps"
| "smooth_all alpha lastv (Some p # ps) =
     (case smooth_next alpha lastv p of
        (last', s) \<Rightarrow> Some s # smooth_all alpha last' ps)"

subsection \<open>Position simulation\<close>

record entry =
  time :: string
  price_cents :: "int option"

text \<open>
  The halftime index is the one place where the program truncates a product to an
  integer, so there the rounding of the machine's multiplication decides the result.
  The product \<open>len(smoothed_full) * halftime_fraction\<close> of the double arithmetic
  (the length converted to a double, then multiplied and rounded) is therefore not
  taken to be the exact product: it is any function of the two factors that is exact
  on a factor \<open>1.0\<close>, as the double product is for every length a series can have.
\<close>

typedef machine_product = "{f :: real \<Rightarrow> real \<Rightarrow> real. \<forall>x. f x 1 = x}"
proof
  show "(\<lambda>x y. x * y) \<in> {f :: real \<Rightarrow> real \<Rightarrow> real. \<forall>x. f x 1 = x}"
    by simp
qed

setup_lifting type_definition_machine_product

lift_definition times_of :: "machine_product \<Rightarrow> real \<Rightarrow> real \<Rightarrow> real" is "\<lambda>f. f" .

text \<open>The exact product, which the double product equals wherever it does not round.\<close>

lift_definition exact_product :: machine_product is "\<lambda>x y. x * y"
  by simp

text \<open>
  The arguments of \<open>run_simulation\<close>, and with them the multiplication of the machine
  the run executes on.
\<close>

record params =
  min_start :: real
  max_start :: real
  gain_threshold :: real
  halftime_fraction :: real
  fall_fraction :: real
  ema_alpha :: real
  float_mul :: machine_product

text \<open>
  The default arguments of \<open>run_simulation\<close>, on a machine whose product is exact on
  the factors it meets.
\<close>

definition default_params :: params where
  "default_params =
     \<lparr> min_start = 14 / 100, max_start = 77 / 100, gain_threshold = 3 / 100,
       halftime_fraction = 1, fall_fraction = 81 / 100, ema_alpha = 25 / 100,
       float_mul = exact_product \<rparr>"

text \<open>\<open>prices = [e["price_cents"] / 100 if ... is not None else None for e in data]\<close>\<close>

definition prices_of :: "entry list \<Rightarrow> real option list" where
  "prices_of data =
     map (\<lambda>e. case price_cents e of
                 Some c \<Rightarrow> Some (real_of_int c / 100)
               | None \<Rightarrow> None) data"

text \<open>\<open>next((p for p in xs if p is not None), None)\<close>\<close>

fun first_defined :: "'a option list \<Rightarrow> 'a option" where
  "first_defined [] = None"
| "first_defined (None # xs) = first_defined xs"
| "first_defined (Some x # xs) = Some x"

text \<open>Python's \<open>int\<close> of a float truncates towards zero.\<close>

definition py_int :: "real \<Rightarrow> int" where
  "py_int x = (if 0 \<le> x then \<lfloor>x\<rfloor> else \<lceil>x\<rceil>)"

datatype trigger = PeakDrop | Retracement | Stagnation

text \<open>The three sell conditions of the loop, in the order the source tests them.\<close>

definition peak_drop :: "params \<Rightarrow> real \<Rightarrow> real \<Rightarrow> bool" where
  "peak_drop P mg gain \<longleftrightarrow> mg \<ge> gain_threshold P \<and> gain < gain_threshold P"

definition retracement :: "params \<Rightarrow> real \<Rightarrow> real \<Rightarrow> bool" where
  "retracement P mg gain \<longleftrightarrow> mg > gain_threshold P \<and> gain \<le> mg * fall_fraction P"

definition stagnation :: "params \<Rightarrow> real \<Rightarrow> int \<Rightarrow> nat \<Rightarrow> real \<Rightarrow> bool" where
  "stagnation P start halftime_index idx smooth_price \<longleftrightarrow>
     int idx = halftime_index \<and> smooth_price < start + gain_threshold P"

text \<open>
  What the loop knows when it breaks: the index, the condition that fired, the value
  assigned to \<open>sell_price\<close>, and the gain and peak gain at that tick.
\<close>

record exit_event =
  ex_idx :: nat
  ex_trigger :: trigger
  ex_sell_price :: real
  ex_gain :: real
  ex_max_gain :: real

text \<open>
  \<open>for idx, smooth_price in enumerate(smoothed_full)\<close>, over the pairs
  \<open>(smoothed_full[idx], prices[idx])\<close>; \<open>idx\<close> and \<open>max_gain\<close> are the loop's state.
  \<open>None\<close> is the loop running to its end without a break.
\<close>

fun position_loop ::
  "params \<Rightarrow> real \<Rightarrow> int \<Rightarrow> nat \<Rightarrow> real \<Rightarrow> (real option \<times> real option) list
     \<Rightarrow> exit_event option" where
  "position_loop P start halftime_index idx mg [] = None"
| "position_loop P start halftime_index idx mg ((None, rp) # rest) =
     position_loop P start halftime_index (Suc idx) mg rest"
| "position_loop P start halftime_index idx mg ((Some smooth_price, None) # rest) =
     position_loop P start halftime_index (Suc idx) mg rest"
| "position_loop P start halftime_index idx mg ((Some smooth_price, Some real_price) # rest) =
     (let gain = smooth_price - start;
          mg' = max mg gain
      in if peak_drop P mg' gain then
           Some \<lparr> ex_idx = idx, ex_trigger = PeakDrop, ex_sell_price = real_price,
                  ex_gain = gain, ex_max_gain = mg' \<rparr>
         else if retracement P mg' gain then
           Some \<lparr> ex_idx = idx, ex_trigger = Retracement, ex_sell_price = real_price,
                  ex_gain = gain, ex_max_gain = mg' \<rparr>
         else if stagnation P start halftime_index idx smooth_price then
           Some \<lparr> ex_idx = idx, ex_trigger = Stagnation, ex_sell_price = real_price,
                  ex_gain = gain, ex_max_gain = mg' \<rparr>
         else position_loop P start halftime_index (Suc idx) mg' rest)"

definition smoothed_full_of :: "params \<Rightarrow> entry list \<Rightarrow> real option list" where
  "smoothed_full_of P data = smooth_all (ema_alpha P) None (prices_of data)"

text \<open>\<open>start_price = next((p for p in smoothed_full if p is not None), None)\<close>\<close>

definition entry_price :: "params \<Rightarrow> entry list \<Rightarrow> real option" where
  "entry_price P data = first_defined (smoothed_full_of P data)"

text \<open>
  \<open>halftime_index = int(len(smoothed_full) * halftime_fraction)\<close>, the product being
  the machine's.
\<close>

definition halftime_index_of :: "params \<Rightarrow> entry list \<Rightarrow> int" where
  "halftime_index_of P data =
     py_int (times_of (float_mul P) (real (length (smoothed_full_of P data)))
               (halftime_fraction P))"

text \<open>The sell loop of an entered position, run from \<open>idx = 0\<close> and \<open>max_gain = 0\<close>.\<close>

definition exit_of :: "params \<Rightarrow> entry list \<Rightarrow> real \<Rightarrow> exit_event option" where
  "exit_of P data start =
     position_loop P start (halftime_index_of P data) 0 0
       (zip (smoothed_full_of P data) (prices_of data))"

text \<open>
  \<open>sell_price\<close> after the loop and the fallback
  \<open>next((p for p in reversed(prices) if p is not None), start_price)\<close>.
\<close>

definition sell_price_of :: "params \<Rightarrow> entry list \<Rightarrow> real \<Rightarrow> real" where
  "sell_price_of P data start =
     (case exit_of P data start of
        Some ev \<Rightarrow> ex_sell_price ev
      | None \<Rightarrow> (case first_defined (rev (prices_of data)) of
                   Some p \<Rightarrow> p
                 | None \<Rightarrow> start))"

text \<open>
  \<open>simulate_position(data)\<close>: the return of \<open>0.0\<close> on a series without a valid price,
  the return of \<open>0.0\<close> on a first smoothed value that is absent or outside the entry
  band, then the position, its sell loop and its profit. The division
  \<open>sell_price / start_price\<close> raises \<open>ZeroDivisionError\<close> on a zero start price.
\<close>

definition simulate_position :: "params \<Rightarrow> entry list \<Rightarrow> py_error + real" where
  "simulate_position P data =
     (if [p \<leftarrow> prices_of data. p \<noteq> None] = [] then Inr 0
      else case entry_price P data of
             None \<Rightarrow> Inr 0
           | Some start \<Rightarrow>
               if \<not> (min_start P \<le> start \<and> start \<le> max_start P) then Inr 0
               else (let stake = FLAT_BET_AMOUNT;
                         sell_price = sell_price_of P data start
                     in if start = 0 then Inl ZeroDivisionError
                        else Inr (stake * (sell_price / start - 1))))"

text \<open>
  The position a call of \<open>simulate_position\<close> holds when it reaches the sell loop:
  \<open>Some start\<close> when the call passes both early returns with \<open>start_price = start\<close>,
  \<open>None\<close> when it leaves through one of them.
\<close>

definition open_position :: "params \<Rightarrow> entry list \<Rightarrow> real option" where
  "open_position P data =
     (if [p \<leftarrow> prices_of data. p \<noteq> None] = [] then None
      else case entry_price P data of
             None \<Rightarrow> None
           | Some start \<Rightarrow>
               if \<not> (min_start P \<le> start \<and> start \<le> max_start P) then None
               else Some start)"

subsection \<open>Pairing the files of a week and accumulating the bankroll\<close>

text \<open>
  A week directory is what \<open>os.listdir\<close> returns for it, in the order it returns it,
  each name with what \<open>json.load\<close> makes of the file: a list of records, or the decoder's
  exception. The archive folder lists names that are week directories or something else.
\<close>

datatype file_content = Unparseable | Parsed "entry list"

type_synonym week_dir = "(string \<times> file_content) list"

datatype fs_node = RegularFile | Directory week_dir

type_synonym filter_folder = "(string \<times> fs_node) list"

text \<open>\<open>f.endswith(sfx)\<close>\<close>

definition endswith :: "string \<Rightarrow> string \<Rightarrow> bool" where
  "endswith sfx f \<longleftrightarrow> length sfx \<le> length f \<and> drop (length f - length sfx) f = sfx"

text \<open>
  \<open>f.rsplit("-", 1)[0]\<close>: the text before the last hyphen, the whole name when it has
  no hyphen.
\<close>

definition game_key :: "string \<Rightarrow> string" where
  "game_key f =
     (if CHR ''-'' \<in> set f then rev (tl (dropWhile (\<lambda>c. c \<noteq> CHR ''-'') (rev f))) else f)"

text \<open>\<open>games.setdefault(game_key, []).append(f)\<close>\<close>

definition setdefault_append ::
  "(string \<times> string list) list \<Rightarrow> string \<Rightarrow> (string \<times> string list) list" where
  "setdefault_append games f =
     (case map_of games (game_key f) of
        None \<Rightarrow> games @ [(game_key f, [f])]
      | Some v \<Rightarrow> AList.update (game_key f) (v @ [f]) games)"

definition get_game_pairs :: "string list \<Rightarrow> (string \<times> string list) list" where
  "get_game_pairs listing =
     (let files = [f \<leftarrow> listing. endswith ''.json'' f];
          games = foldl setdefault_append [] files
      in [(k, v) \<leftarrow> games. length v = 2])"

text \<open>\<open>open\<close> and \<open>json.load\<close> of one file of the week; no handler surrounds them.\<close>

definition load_json :: "week_dir \<Rightarrow> string \<Rightarrow> py_error + entry list" where
  "load_json week f =
     (case map_of week f of
        None \<Rightarrow> Inl FileNotFoundError
      | Some Unparseable \<Rightarrow> Inl JSONDecodeError
      | Some (Parsed data) \<Rightarrow> Inr data)"

text \<open>\<open>for f in files: ... game_profit += simulate_position(data)\<close>\<close>

fun game_loop :: "params \<Rightarrow> week_dir \<Rightarrow> real \<Rightarrow> string list \<Rightarrow> py_error + real" where
  "game_loop P week game_profit [] = Inr game_profit"
| "game_loop P week game_profit (f # fs) =
     (case load_json week f of
        Inl e \<Rightarrow> Inl e
      | Inr data \<Rightarrow>
          (case simulate_position P data of
             Inl e \<Rightarrow> Inl e
           | Inr profit \<Rightarrow> game_loop P week (game_profit + profit) fs))"

text \<open>\<open>for game_key, files in game_pairs.items(): ... bankroll += game_profit\<close>\<close>

fun pairs_loop ::
  "params \<Rightarrow> week_dir \<Rightarrow> real \<Rightarrow> (string \<times> string list) list \<Rightarrow> py_error + real" where
  "pairs_loop P week acc [] = Inr acc"
| "pairs_loop P week acc ((k, files) # rest) =
     (case game_loop P week 0 files of
        Inl e \<Rightarrow> Inl e
      | Inr game_profit \<Rightarrow> pairs_loop P week (acc + game_profit) rest)"

text \<open>The body of the week loop for one week directory, from the bankroll so far.\<close>

definition week_run :: "params \<Rightarrow> week_dir \<Rightarrow> real \<Rightarrow> py_error + real" where
  "week_run P week acc = pairs_loop P week acc (get_game_pairs (map fst week))"

text \<open>\<open>for week_name in sorted(os.listdir(FILTER_FOLDER))\<close>, skipping what is no directory.\<close>

fun weeks_loop :: "params \<Rightarrow> real \<Rightarrow> filter_folder \<Rightarrow> py_error + real" where
  "weeks_loop P acc [] = Inr acc"
| "weeks_loop P acc ((week_name, RegularFile) # rest) = weeks_loop P acc rest"
| "weeks_loop P acc ((week_name, Directory week) # rest) =
     (case week_run P week acc of
        Inl e \<Rightarrow> Inl e
      | Inr acc' \<Rightarrow> weeks_loop P acc' rest)"

definition run_simulation :: "params \<Rightarrow> filter_folder \<Rightarrow> py_error + real" where
  "run_simulation P folder = weeks_loop P START_BANKROLL (sort_key fst folder)"

section \<open>Live runner (simulate\_live.py)\<close>

definition BET_AMOUNT :: real where
  "BET_AMOUNT = 10"

definition MIN_START :: real where
  "MIN_START = 14 / 100"

definition MAX_START :: real where
  "MAX_START = 77 / 100"

definition GAIN_THRESHOLD :: real where
  "GAIN_THRESHOLD = 3 / 100"

definition FALL_FRACTION :: real where
  "FALL_FRACTION = 81 / 100"

definition SIGMA_REF :: real where
  "SIGMA_REF = 332 / 100"

definition SAMPLES_PER_MINUTE :: real where
  "SAMPLES_PER_MINUTE = 60"

definition HISTORY_LENGTH :: nat where
  "HISTORY_LENGTH = 300"

subsection \<open>Helpers\<close>

text \<open>
  One line of a ticker file: text that is no JSON, JSON that is no object (on which
  \<open>obj.get\<close> raises and the outer handler returns \<open>None\<close>), or an object with its
  \<open>price\<close> field (absent or null is \<open>None\<close>).
\<close>

datatype jsonl_line = Malformed | NonObject | Record "int option"

fun last_price_loop :: "real option \<Rightarrow> jsonl_line list \<Rightarrow> real option" where
  "last_price_loop last_price [] = last_price"
| "last_price_loop last_price (Malformed # ls) = last_price_loop last_price ls"
| "last_price_loop last_price (NonObject # ls) = None"
| "last_price_loop last_price (Record None # ls) = last_price_loop last_price ls"
| "last_price_loop last_price (Record (Some p) # ls) =
     last_price_loop (Some (real_of_int p / 100)) ls"

text \<open>The argument is the content of the file at \<open>path\<close>, \<open>None\<close> when it does not exist.\<close>

definition load_last_price_from_jsonl :: "jsonl_line list option \<Rightarrow> real option" where
  "load_last_price_from_jsonl file =
     (case file of None \<Rightarrow> None | Some ls \<Rightarrow> last_price_loop None ls)"

definition ewma_update ::
  "'a::{one,plus,minus,times} option \<Rightarrow> 'a \<Rightarrow> 'a \<Rightarrow> 'a" where
  "ewma_update prev v alpha =
     (case prev of
        None \<Rightarrow> v
      | Some p \<Rightarrow> alpha * v + (1 - alpha) * p)"

definition compute_alpha_from_sigma_minutes :: "real \<Rightarrow> real" where
  "compute_alpha_from_sigma_minutes sigma_minutes =
     (let sigma_points = sigma_minutes * SAMPLES_PER_MINUTE;
          alpha = 1 / max 1 sigma_points
      in max (1 / 1000) (min alpha (1 / 2)))"

definition ALPHA :: real where
  "ALPHA = compute_alpha_from_sigma_minutes SIGMA_REF"

text \<open>
  The formula of the configuration surface, in the specification's words, for comparison
  with the function above: \<open>clamp(1/(sigma_minutes * samples_per_minute), 0.001, 0.5)\<close>.
\<close>

definition clamp :: "real \<Rightarrow> real \<Rightarrow> real \<Rightarrow> real" where
  "clamp x lo hi = (if x < lo then lo else if hi < x then hi else x)"

definition spec_alpha :: "real \<Rightarrow> real" where
  "spec_alpha sigma_minutes =
     clamp (1 / (sigma_minutes * SAMPLES_PER_MINUTE)) (1 / 1000) (1 / 2)"

subsection \<open>State\<close>

text \<open>
  The module's global dictionaries and the bankroll, with the two lines the runner prints
  when it places a bet and when it sells. A bet is the dictionary with the keys
  \<open>bet\<close>, \<open>start_price\<close> and \<open>max_gain\<close>.
\<close>

record bet =
  b_bet :: real
  b_start_price :: real
  b_max_gain :: real

datatype console_event =
  Placed string real real
| Sold string real real

record live_state =
  smoothed :: "(string \<times> real) list"
  price_history :: "(string \<times> real list) list"
  active_bets :: "(string \<times> bet) list"
  sold_games :: "(string \<times> real) list"
  bankroll :: real
  console :: "console_event list"

definition init_state :: live_state where
  "init_state =
     \<lparr> smoothed = [], price_history = [], active_bets = [], sold_games = [],
       bankroll = 0, console = [] \<rparr>"

text \<open>
  The active folder as \<open>os.listdir\<close> returns it, each name with the lines of the file.
\<close>

type_synonym active_folder = "(string \<times> jsonl_line list) list"

text \<open>\<open>deque(maxlen=HISTORY_LENGTH).append(x)\<close>\<close>

definition deque_append :: "real list \<Rightarrow> real \<Rightarrow> real list" where
  "deque_append h x = (let h' = h @ [x] in drop (length h' - HISTORY_LENGTH) h')"

text \<open>\<open>price_history.setdefault(ticker, deque(maxlen=HISTORY_LENGTH)).append(last_price)\<close>\<close>

definition history_append ::
  "string \<Rightarrow> real \<Rightarrow> (string \<times> real list) list \<Rightarrow> (string \<times> real list) list" where
  "history_append ticker x ph =
     AList.update ticker
       (deque_append (case map_of ph ticker of None \<Rightarrow> [] | Some h \<Rightarrow> h) x) ph"

text \<open>\<open>fn[:-6]\<close>\<close>

definition ticker_of :: "string \<Rightarrow> string" where
  "ticker_of fn = take (length fn - 6) fn"

subsection \<open>Startup\<close>

text \<open>The first loop of \<open>place_initial_bets\<close>.\<close>

fun init_smoothed_loop :: "live_state \<Rightarrow> active_folder \<Rightarrow> live_state" where
  "init_smoothed_loop st [] = st"
| "init_smoothed_loop st ((fn, ls) # rest) =
     (if \<not> endswith ''.jsonl'' fn then init_smoothed_loop st rest
      else case load_last_price_from_jsonl (Some ls) of
             None \<Rightarrow> init_smoothed_loop st rest
           | Some last_price \<Rightarrow>
               init_smoothed_loop
                 (st\<lparr> smoothed := AList.update (ticker_of fn) last_price (smoothed st),
                      price_history :=
                        history_append (ticker_of fn) last_price (price_history st) \<rparr>)
                 rest)"

text \<open>The second loop, over \<open>list(smoothed.items())\<close>.\<close>

fun place_loop :: "live_state \<Rightarrow> (string \<times> real) list \<Rightarrow> live_state" where
  "place_loop st [] = st"
| "place_loop st ((ticker, s_price) # rest) =
     (if MIN_START \<le> s_price \<and> s_price \<le> MAX_START then
        place_loop
          (st\<lparr> active_bets :=
                 AList.update ticker
                   \<lparr> b_bet = BET_AMOUNT, b_start_price = s_price, b_max_gain = 0 \<rparr>
                   (active_bets st),
               console := console st @ [Placed ticker BET_AMOUNT s_price] \<rparr>)
          rest
      else place_loop st rest)"

definition place_initial_bets :: "live_state \<Rightarrow> active_folder \<Rightarrow> live_state" where
  "place_initial_bets st folder =
     (let st1 = init_smoothed_loop st folder in place_loop st1 (smoothed st1))"

subsection \<open>One iteration of the main loop\<close>

fun update_loop ::
  "string list \<Rightarrow> live_state \<Rightarrow> active_folder \<Rightarrow> string list \<times> live_state" where
  "update_loop updated_tickers st [] = (updated_tickers, st)"
| "update_loop updated_tickers st ((fn, ls) # rest) =
     (if \<not> endswith ''.jsonl'' fn then update_loop updated_tickers st rest
      else case load_last_price_from_jsonl (Some ls) of
             None \<Rightarrow> update_loop updated_tickers st rest
           | Some last_price \<Rightarrow>
               update_loop (updated_tickers @ [ticker_of fn])
                 (st\<lparr> smoothed :=
                        (case map_of (smoothed st) (ticker_of fn) of
                           None \<Rightarrow> AList.update (ticker_of fn) last_price (smoothed st)
                         | Some s \<Rightarrow>
                             AList.update (ticker_of fn)
                               (ewma_update (Some s) last_price ALPHA) (smoothed st)),
                      price_history :=
                        history_append (ticker_of fn) last_price (price_history st) \<rparr>)
                 rest)"

definition update_from_live_files ::
  "live_state \<Rightarrow> active_folder \<Rightarrow> string list \<times> live_state" where
  "update_from_live_files st folder = update_loop [] st folder"

text \<open>
  \<open>evaluate_sells_for_ticker(ticker)\<close>: the peak gain is written back into the bet
  before the sell conditions are read; on a sale the profit is computed from
  \<open>current\<close>, the smoothed price, which is also the price the sale line prints.
\<close>

definition evaluate_sells_for_ticker :: "live_state \<Rightarrow> string \<Rightarrow> bool \<times> live_state" where
  "evaluate_sells_for_ticker st ticker =
     (case map_of (active_bets st) ticker of
        None \<Rightarrow> (False, st)
      | Some bet0 \<Rightarrow>
          (case map_of (smoothed st) ticker of
             None \<Rightarrow> (False, st)
           | Some current \<Rightarrow>
               (let start = b_start_price bet0;
                    gain = current - start;
                    bet1 = (if gain > b_max_gain bet0 then bet0\<lparr> b_max_gain := gain \<rparr>
                            else bet0);
                    st1 = st\<lparr> active_bets := AList.update ticker bet1 (active_bets st) \<rparr>;
                    sell =
                      (if b_max_gain bet1 \<ge> GAIN_THRESHOLD \<and> gain < GAIN_THRESHOLD then True
                       else if b_max_gain bet1 > GAIN_THRESHOLD
                               \<and> gain \<le> b_max_gain bet1 * FALL_FRACTION then True
                       else False)
                in if sell then
                     (let profit = b_bet bet1 * (current - start)
                      in (True,
                          st1\<lparr> bankroll := bankroll st1 + profit,
                               sold_games := AList.update ticker profit (sold_games st1),
                               active_bets := AList.delete ticker (active_bets st1),
                               console := console st1 @ [Sold ticker current profit] \<rparr>))
                   else (False, st1))))"

text \<open>\<open>for ticker in list(active_bets.keys()): if evaluate_sells_for_ticker(ticker): ...\<close>\<close>

fun sells_loop :: "bool \<Rightarrow> live_state \<Rightarrow> string list \<Rightarrow> bool \<times> live_state" where
  "sells_loop sell_happened st [] = (sell_happened, st)"
| "sells_loop sell_happened st (ticker # rest) =
     (case evaluate_sells_for_ticker st ticker of
        (True, st') \<Rightarrow> sells_loop True st' rest
      | (False, st') \<Rightarrow> sells_loop sell_happened st' rest)"

text \<open>
  The body of \<open>while True\<close>, given what the active folder holds at that iteration. The
  dashboard only displays the state and is left out.
\<close>

definition tick :: "live_state \<Rightarrow> active_folder \<Rightarrow> live_state" where
  "tick st folder =
     (case update_from_live_files st folder of
        (updated, st1) \<Rightarrow> snd (sells_loop False st1 (map fst (active_bets st1))))"

text \<open>
  \<open>main_loop\<close> up to a number of iterations: the startup on the first snapshot of the
  folder, then one iteration for each later snapshot. The loop itself never ends.
\<close>

definition main_loop_prefix :: "active_folder \<Rightarrow> active_folder list \<Rightarrow> live_state" where
  "main_loop_prefix folder0 folders = foldl tick (place_initial_bets init_state folder0) folders"

subsection \<open>The smoothed value of one ticker over successive samples\<close>

text \<open>
  What the runner stores for one ticker when it feeds the samples \<open>vs\<close> one after the
  other through \<open>ewma_update\<close>, starting from the stored value \<open>prev\<close>.
\<close>

fun ewma_run :: "'a::{one,plus,minus,times} \<Rightarrow> 'a option \<Rightarrow> 'a list \<Rightarrow> 'a list" where
  "ewma_run alpha prev [] = []"
| "ewma_run alpha prev (v # vs) =
     (let s = ewma_update prev v alpha in s # ewma_run alpha (Some s) vs)"

subsection \<open>The exit rule without an order among the conditions\<close>

text \<open>
  For comparison with \<open>position_loop\<close>: the same walk over the ticks, selling at the
  first tick with a defined smoothed and raw price at which at least one of the three
  conditions holds, at the raw price of that tick. It names no condition and tests them
  in no order.
\<close>

fun any_trigger_exit ::
  "params \<Rightarrow> real \<Rightarrow> int \<Rightarrow> nat \<Rightarrow> real \<Rightarrow> (real option \<times> real option) list
     \<Rightarrow> (nat \<times> real) option" where
  "any_trigger_exit P start halftime_index idx mg [] = None"
| "any_trigger_exit P start halftime_index idx mg ((None, rp) # rest) =
     any_trigger_exit P start halftime_index (Suc idx) mg rest"
| "any_trigger_exit P start halftime_index idx mg ((Some smooth_price, None) # rest) =
     any_trigger_exit P start halftime_index (Suc idx) mg rest"
| "any_trigger_exit P start halftime_index idx mg ((Some smooth_price, Some real_price) # rest) =
     (let gain = smooth_price - start;
          mg' = max mg gain
      in if peak_drop P mg' gain \<or> retracement P mg' gain
              \<or> stagnation P start halftime_index idx smooth_price
         then Some (idx, real_price)
         else any_trigger_exit P start halftime_index (Suc idx) mg' rest)"

text \<open>The sale line of the console, if the line is one.\<close>

definition sold_price :: "console_event \<Rightarrow> real option" where
  "sold_price e =
     (case e of
        Sold ticker price profit \<Rightarrow> Some price
      | Placed ticker amount price \<Rightarrow> None)"

text \<open>An active folder holding the one ticker file \<open>KX-A.jsonl\<close> with the given prices.\<close>

definition ticker_file :: "int list \<Rightarrow> active_folder" where
  "ticker_file cs = [(''KX-A.jsonl'', map (\<lambda>c. Record (Some c)) cs)]"

text \<open>A series file with the given prices, one record each.\<close>

definition series :: "int list \<Rightarrow> entry list" where
  "series cs = map (\<lambda>c. \<lparr> time = ''t'', price_cents = Some c \<rparr>) cs"

text \<open>
  A state of the live runner in which the ticker holds a bet placed at \<open>0.30\<close> whose
  peak gain was \<open>0.10\<close>; the smoothed price is \<open>0.32\<close>, the last raw price \<open>0.20\<close>.
\<close>

definition sale_state :: live_state where
  "sale_state =
     \<lparr> smoothed = [(''KX-A'', 32 / 100)], price_history = [(''KX-A'', [20 / 100])],
       active_bets = [(''KX-A'', \<lparr> b_bet = 10, b_start_price = 30 / 100, b_max_gain = 10 / 100 \<rparr>)],
       sold_games = [], bankroll = 0, console = [] \<rparr>"

text \<open>
  A week directory with three files under the key \<open>NFL-G1\<close> and two under \<open>NFL-G2\<close>, and
  the same directory without the three.
\<close>

definition week_three_and_two :: week_dir where
  "week_three_and_two =
     [(''NFL-G1-DAL.json'', Parsed (series [30, 70, 0])),
      (''NFL-G2-KC.json'', Parsed (series [30, 70, 0])),
      (''NFL-G1-PHI.json'', Parsed (series [20, 20])),
      (''NFL-G2-LAC.json'', Parsed (series [20, 20])),
      (''NFL-G1-TIE.json'', Parsed (series [50, 90, 0]))]"

definition week_two :: week_dir where
  "week_two =
     [(''NFL-G2-KC.json'', Parsed (series [30, 70, 0])),
      (''NFL-G2-LAC.json'', Parsed (series [20, 20]))]"

section \<open>Verified properties\<close>

subsection \<open>The machine product and the opened position\<close>

lemma times_of_one [simp]: "times_of m x 1 = x"
  by transfer simp

lemma times_of_exact_product [simp]: "times_of exact_product x y = x * y"
  by transfer simp

lemma simulate_position_open:
  "simulate_position P data =
     (case open_position P data of
        None \<Rightarrow> Inr 0
      | Some start \<Rightarrow>
          if start = 0 then Inl ZeroDivisionError
          else Inr (FLAT_BET_AMOUNT * (sell_price_of P data start / start - 1)))"
  by (simp add: simulate_position_def open_position_def Let_def split: option.splits
           del: not_None_eq)

subsection \<open>Smoothing\<close>

lemma smooth_all_ewma_run:
  "smooth_all alpha prev (map Some vs) = map Some (ewma_run alpha prev vs)"
  by (induction vs arbitrary: prev) (simp_all add: smooth_next_def ewma_update_def Let_def)

text \<open>
  C8. The smoothing step of the batch backtester and the one of the live runner are the
  same function: on an absent previous value both return the raw price, otherwise both
  return \<open>alpha * raw + (1 - alpha) * previous\<close>, and over the same samples in the same
  order they produce the same smoothed sequence. The statement holds for any arithmetic,
  as no law of \<open>+\<close>, \<open>-\<close> or \<open>*\<close> is used.
\<close>

theorem smoothing_same_function:
  "smooth_next alpha prev v = (Some (ewma_update prev v alpha), ewma_update prev v alpha)
   \<and> ewma_update None v alpha = v
   \<and> ewma_update (Some l) v alpha = alpha * v + (1 - alpha) * l
   \<and> smooth_all alpha prev (map Some vs) = map Some (ewma_run alpha prev vs)"
  by (simp add: smooth_next_def ewma_update_def Let_def smooth_all_ewma_run)

subsection \<open>The live runner's alpha\<close>

text \<open>
  C10. For every positive \<open>sigma_minutes\<close> the alpha the live runner computes is the
  reciprocal of \<open>sigma_minutes * samples_per_minute\<close> clamped to \<open>[0.001, 0.5]\<close>.
\<close>

theorem alpha_is_clamped_reciprocal:
  assumes "0 < sigma_minutes"
  shows "compute_alpha_from_sigma_minutes sigma_minutes = spec_alpha sigma_minutes"
proof (cases "1 \<le> sigma_minutes * 60")
  case True
  then show ?thesis
    by (auto simp: compute_alpha_from_sigma_minutes_def spec_alpha_def clamp_def
        SAMPLES_PER_MINUTE_def Let_def max_def min_def)
next
  case False
  then have lt: "sigma_minutes * 60 < 1" by simp
  have pos: "0 < sigma_minutes * 60" using assms by simp
  have "1 < 1 / (sigma_minutes * 60)" using lt pos by simp
  then show ?thesis using False
    by (auto simp: compute_alpha_from_sigma_minutes_def spec_alpha_def clamp_def
        SAMPLES_PER_MINUTE_def Let_def max_def min_def)
qed

theorem alpha_is_clamped_reciprocal_witness:
  "(0::real) < 332 / 100 \<and> ALPHA = spec_alpha (332 / 100) \<and> ALPHA = 5 / 996"
  using alpha_is_clamped_reciprocal [of "332 / 100"]
  by (simp add: ALPHA_def SIGMA_REF_def spec_alpha_def clamp_def SAMPLES_PER_MINUTE_def)

subsection \<open>Entry screening\<close>

lemma length_smooth_all [simp]: "length (smooth_all alpha lastv ps) = length ps"
  by (induction alpha lastv ps rule: smooth_all.induct) (simp_all split: prod.splits)

lemma first_defined_smooth_all_None:
  "first_defined (smooth_all alpha lastv ps) = None \<longleftrightarrow> [p \<leftarrow> ps. p \<noteq> None] = []"
  by (induction alpha lastv ps rule: smooth_all.induct) (simp_all split: prod.splits)

lemma entry_price_Some_valid:
  "entry_price P data = Some e \<Longrightarrow> [p \<leftarrow> prices_of data. p \<noteq> None] \<noteq> []"
  using first_defined_smooth_all_None [of "ema_alpha P" None "prices_of data"]
  by (auto simp: entry_price_def smoothed_full_of_def)

lemma distinct_init_smoothed_loop:
  "distinct (map fst (smoothed st)) \<Longrightarrow>
   distinct (map fst (smoothed (init_smoothed_loop st folder)))"
  by (induction st folder rule: init_smoothed_loop.induct)
     (auto simp: distinct_update split: option.splits)

lemma smoothed_place_loop [simp]: "smoothed (place_loop st xs) = smoothed st"
  by (induction st xs rule: place_loop.induct) simp_all

lemma active_bets_place_loop:
  "distinct (map fst xs) \<Longrightarrow>
   map_of (active_bets (place_loop st xs)) t =
     (case map_of xs t of
        None \<Rightarrow> map_of (active_bets st) t
      | Some s \<Rightarrow>
          if MIN_START \<le> s \<and> s \<le> MAX_START
          then Some \<lparr> b_bet = BET_AMOUNT, b_start_price = s, b_max_gain = 0 \<rparr>
          else map_of (active_bets st) t)"
proof (induction st xs rule: place_loop.induct)
  case (1 st)
  then show ?case by simp
next
  case (2 st ticker s_price rest)
  from 2(3) have nin: "map_of rest ticker = None" and dr: "distinct (map fst rest)"
    by (simp_all add: map_of_eq_None_iff)
  show ?case
  proof (cases "MIN_START \<le> s_price \<and> s_price \<le> MAX_START")
    case True
    from 2(1)[OF True dr] True nin show ?thesis
      by (cases "t = ticker") (simp_all add: update_conv' split: option.splits)
  next
    case False
    then have eq: "place_loop st ((ticker, s_price) # rest) = place_loop st rest"
      by auto
    have "(if MIN_START \<le> s_price \<and> s_price \<le> MAX_START
           then Some \<lparr> b_bet = BET_AMOUNT, b_start_price = s_price, b_max_gain = 0 \<rparr>
           else map_of (active_bets st) t) = map_of (active_bets st) t"
      using False by auto
    with 2(2)[OF False dr] nin show ?thesis
      unfolding eq by (cases "t = ticker") (simp_all split: option.splits)
  qed
qed

text \<open>
  C7. A position is opened iff the entry price lies in the entry band, both bounds
  included. In the batch context the entry price is the first defined smoothed value:
  with it in the band \<open>simulate_position\<close> runs the position and returns its profit
  (or raises on a zero entry price), and with it outside the band, or absent, it returns
  \<open>0\<close>. In the live context the entry price is the smoothed value of the ticker at
  startup: a bet is placed on it exactly when it is in the band, and a ticker without a
  bet is never sold.
\<close>

theorem entry_band_inclusive:
  "simulate_position P data =
     (case entry_price P data of
        None \<Rightarrow> Inr 0
      | Some e \<Rightarrow>
          if min_start P \<le> e \<and> e \<le> max_start P
          then (if e = 0 then Inl ZeroDivisionError
                else Inr (FLAT_BET_AMOUNT * (sell_price_of P data e / e - 1)))
          else Inr 0)
   \<and> (map_of (active_bets (place_initial_bets init_state folder)) t =
        (case map_of (smoothed (place_initial_bets init_state folder)) t of
           None \<Rightarrow> None
         | Some s \<Rightarrow>
             if MIN_START \<le> s \<and> s \<le> MAX_START
             then Some \<lparr> b_bet = BET_AMOUNT, b_start_price = s, b_max_gain = 0 \<rparr>
             else None))
   \<and> (map_of (active_bets st) t = None \<longrightarrow> evaluate_sells_for_ticker st t = (False, st))"
proof -
  have a: "simulate_position P data =
     (case entry_price P data of
        None \<Rightarrow> Inr 0
      | Some e \<Rightarrow>
          if min_start P \<le> e \<and> e \<le> max_start P
          then (if e = 0 then Inl ZeroDivisionError
                else Inr (FLAT_BET_AMOUNT * (sell_price_of P data e / e - 1)))
          else Inr 0)"
  proof (cases "entry_price P data")
    case None
    then show ?thesis by (simp add: simulate_position_def)
  next
    case (Some e)
    from entry_price_Some_valid [OF Some] Some show ?thesis
      by (simp add: simulate_position_def Let_def del: not_None_eq)
  qed
  have d: "distinct (map fst (smoothed (init_smoothed_loop init_state folder)))"
    by (rule distinct_init_smoothed_loop) (simp add: init_state_def)
  have ab: "active_bets (init_smoothed_loop st0 folder) = active_bets st0" for st0
    by (induction st0 folder rule: init_smoothed_loop.induct) (simp_all split: option.splits)
  have c: "map_of (active_bets (place_initial_bets init_state folder)) t =
        (case map_of (smoothed (place_initial_bets init_state folder)) t of
           None \<Rightarrow> None
         | Some s \<Rightarrow>
             if MIN_START \<le> s \<and> s \<le> MAX_START
             then Some \<lparr> b_bet = BET_AMOUNT, b_start_price = s, b_max_gain = 0 \<rparr>
             else None)"
    using active_bets_place_loop [OF d, of "init_smoothed_loop init_state folder" t]
    by (simp add: place_initial_bets_def Let_def ab init_state_def split: option.splits)
  have e: "map_of (active_bets st) t = None \<longrightarrow> evaluate_sells_for_ticker st t = (False, st)"
    by (simp add: evaluate_sells_for_ticker_def)
  from a c e show ?thesis by blast
qed

lemmas batch_eval =
  open_position_def entry_price_def smoothed_full_of_def prices_of_def smooth_next_def
  default_params_def simulate_position_def Let_def

lemmas live_eval =
  place_initial_bets_def init_state_def load_last_price_from_jsonl_def endswith_def
  ticker_of_def history_append_def deque_append_def HISTORY_LENGTH_def MIN_START_def
  MAX_START_def BET_AMOUNT_def Let_def

subsection \<open>The exit loop of the batch backtester\<close>

lemma position_loop_exit:
  "position_loop P start h idx mg zs = Some ev \<Longrightarrow>
     idx \<le> ex_idx ev \<and> ex_idx ev < idx + length zs \<and>
     (\<exists>sm. zs ! (ex_idx ev - idx) = (Some sm, Some (ex_sell_price ev)) \<and>
           ex_gain ev = sm - start \<and>
           (case ex_trigger ev of
              PeakDrop \<Rightarrow> peak_drop P (ex_max_gain ev) (ex_gain ev)
            | Retracement \<Rightarrow> \<not> peak_drop P (ex_max_gain ev) (ex_gain ev)
                               \<and> retracement P (ex_max_gain ev) (ex_gain ev)
            | Stagnation \<Rightarrow> \<not> peak_drop P (ex_max_gain ev) (ex_gain ev)
                              \<and> \<not> retracement P (ex_max_gain ev) (ex_gain ev)
                              \<and> stagnation P start h (ex_idx ev) sm))"
proof (induction P start h idx mg zs rule: position_loop.induct)
  case (1 P start h idx mg)
  then show ?case by simp
next
  case (2 P start h idx mg rp rest)
  then have "position_loop P start h (Suc idx) mg rest = Some ev" by simp
  from 2(1)[OF this] show ?case by (auto simp: Suc_diff_le)
next
  case (3 P start h idx mg sm0 rest)
  then have "position_loop P start h (Suc idx) mg rest = Some ev" by simp
  from 3(1)[OF this] show ?case by (auto simp: Suc_diff_le)
next
  case (4 P start h idx mg sm0 rp rest)
  let ?gain = "sm0 - start"
  let ?mg = "max mg ?gain"
  show ?case
  proof (cases "peak_drop P ?mg ?gain \<or> retracement P ?mg ?gain \<or> stagnation P start h idx sm0")
    case True
    with 4(2) show ?thesis by (auto simp: Let_def split: if_splits)
  next
    case False
    with 4(2) have "position_loop P start h (Suc idx) ?mg rest = Some ev"
      by (simp add: Let_def)
    from 4(1)[OF refl refl _ _ _ this] False show ?thesis by (auto simp: Suc_diff_le)
  qed
qed

lemma length_prices_of [simp]: "length (prices_of data) = length data"
  by (simp add: prices_of_def)

lemma length_smoothed_full_of [simp]: "length (smoothed_full_of P data) = length data"
  by (simp add: smoothed_full_of_def)

lemma exit_of_tick:
  assumes "exit_of P data start = Some ev"
  shows "ex_idx ev < length data
         \<and> prices_of data ! ex_idx ev = Some (ex_sell_price ev)
         \<and> (\<exists>sm. smoothed_full_of P data ! ex_idx ev = Some sm \<and> ex_gain ev = sm - start \<and>
               (case ex_trigger ev of
                  PeakDrop \<Rightarrow> peak_drop P (ex_max_gain ev) (ex_gain ev)
                | Retracement \<Rightarrow> \<not> peak_drop P (ex_max_gain ev) (ex_gain ev)
                                   \<and> retracement P (ex_max_gain ev) (ex_gain ev)
                | Stagnation \<Rightarrow> \<not> peak_drop P (ex_max_gain ev) (ex_gain ev)
                                  \<and> \<not> retracement P (ex_max_gain ev) (ex_gain ev)
                                  \<and> stagnation P start (halftime_index_of P data) (ex_idx ev) sm))"
proof -
  let ?zs = "zip (smoothed_full_of P data) (prices_of data)"
  from assms have "position_loop P start (halftime_index_of P data) 0 0 ?zs = Some ev"
    by (simp add: exit_of_def)
  from position_loop_exit [OF this] obtain sm where
    i: "ex_idx ev < length ?zs" and
    z: "?zs ! ex_idx ev = (Some sm, Some (ex_sell_price ev))" and
    g: "ex_gain ev = sm - start" and
    c: "(case ex_trigger ev of
            PeakDrop \<Rightarrow> peak_drop P (ex_max_gain ev) (ex_gain ev)
          | Retracement \<Rightarrow> \<not> peak_drop P (ex_max_gain ev) (ex_gain ev)
                             \<and> retracement P (ex_max_gain ev) (ex_gain ev)
          | Stagnation \<Rightarrow> \<not> peak_drop P (ex_max_gain ev) (ex_gain ev)
                            \<and> \<not> retracement P (ex_max_gain ev) (ex_gain ev)
                            \<and> stagnation P start (halftime_index_of P data) (ex_idx ev) sm)"
    by auto
  from i have il: "ex_idx ev < length data" by simp
  from z il have "smoothed_full_of P data ! ex_idx ev = Some sm"
    and "prices_of data ! ex_idx ev = Some (ex_sell_price ev)"
    by simp_all
  with il g c show ?thesis by blast
qed

text \<open>
  C1, as amended. At a tick where an exit condition fires, the batch backtester's
  \<open>sell_price\<close> is the raw price of that tick. The live runner sells at \<open>current\<close>,
  the smoothed price of the ticker: that is the price the sale line reports and the
  price the profit is computed from.
\<close>

theorem sell_price_at_trigger:
  "(exit_of P data start = Some ev \<longrightarrow>
      ex_idx ev < length data
      \<and> prices_of data ! ex_idx ev = Some (ex_sell_price ev)
      \<and> sell_price_of P data start = ex_sell_price ev)
   \<and> (evaluate_sells_for_ticker st t = (True, st') \<longrightarrow>
        (\<exists>b cur. map_of (active_bets st) t = Some b \<and> map_of (smoothed st) t = Some cur
           \<and> console st' = console st @ [Sold t cur (b_bet b * (cur - b_start_price b))]))"
proof (intro conjI impI)
  assume e: "exit_of P data start = Some ev"
  from exit_of_tick [OF e] show "ex_idx ev < length data"
    and "prices_of data ! ex_idx ev = Some (ex_sell_price ev)" by blast+
  from e show "sell_price_of P data start = ex_sell_price ev"
    by (simp add: sell_price_of_def)
next
  assume "evaluate_sells_for_ticker st t = (True, st')"
  then show "\<exists>b cur. map_of (active_bets st) t = Some b \<and> map_of (smoothed st) t = Some cur
           \<and> console st' = console st @ [Sold t cur (b_bet b * (cur - b_start_price b))]"
    by (auto simp: evaluate_sells_for_ticker_def Let_def split: option.splits if_splits)
qed

text \<open>
  C2. A closed batch position realizes \<open>stake * (sell_price / start_price - 1)\<close> (the
  division needs a non-zero start price; on a zero start price the call raises and no
  profit is realized). A sale of the live runner realizes
  \<open>stake * (sell_price - start_price)\<close>, where the price sold at is the current
  smoothed price; the profit is stored in \<open>sold_games\<close> and added to the bankroll.
\<close>

theorem realized_profit_formulas:
  "(open_position P data = Some start \<longrightarrow> start \<noteq> 0 \<longrightarrow>
      simulate_position P data
        = Inr (FLAT_BET_AMOUNT * (sell_price_of P data start / start - 1)))
   \<and> (evaluate_sells_for_ticker st t = (True, st') \<longrightarrow>
        (\<exists>b cur. map_of (active_bets st) t = Some b \<and> map_of (smoothed st) t = Some cur
           \<and> map_of (sold_games st') t = Some (b_bet b * (cur - b_start_price b))
           \<and> bankroll st' = bankroll st + b_bet b * (cur - b_start_price b)))"
proof (intro conjI impI)
  assume "open_position P data = Some start" "start \<noteq> 0"
  then show "simulate_position P data
        = Inr (FLAT_BET_AMOUNT * (sell_price_of P data start / start - 1))"
    by (simp add: simulate_position_open)
next
  assume "evaluate_sells_for_ticker st t = (True, st')"
  then show "\<exists>b cur. map_of (active_bets st) t = Some b \<and> map_of (smoothed st) t = Some cur
           \<and> map_of (sold_games st') t = Some (b_bet b * (cur - b_start_price b))
           \<and> bankroll st' = bankroll st + b_bet b * (cur - b_start_price b)"
    by (auto simp: evaluate_sells_for_ticker_def Let_def update_conv'
             split: option.splits if_splits)
qed

lemma position_loop_stagnation_step:
  "(\<exists>ev. position_loop P start h idx mg ((Some sm, Some rp) # rest) = Some ev
         \<and> ex_idx ev = idx \<and> ex_trigger ev = Stagnation)
   \<longleftrightarrow> (\<not> peak_drop P (max mg (sm - start)) (sm - start)
        \<and> \<not> retracement P (max mg (sm - start)) (sm - start)
        \<and> int idx = h \<and> sm < start + gain_threshold P)"
proof -
  let ?gain = "sm - start"
  let ?mg = "max mg ?gain"
  consider (pd) "peak_drop P ?mg ?gain"
    | (rt) "\<not> peak_drop P ?mg ?gain" "retracement P ?mg ?gain"
    | (st) "\<not> peak_drop P ?mg ?gain" "\<not> retracement P ?mg ?gain"
           "stagnation P start h idx sm"
    | (go) "\<not> peak_drop P ?mg ?gain" "\<not> retracement P ?mg ?gain"
           "\<not> stagnation P start h idx sm"
    by blast
  then show ?thesis
  proof cases
    case pd
    then show ?thesis by (auto simp: Let_def)
  next
    case rt
    then show ?thesis by (auto simp: Let_def)
  next
    case st
    then show ?thesis by (auto simp: Let_def stagnation_def)
  next
    case go
    have "ex_idx ev \<noteq> idx"
      if "position_loop P start h (Suc idx) ?mg rest = Some ev" for ev
      using position_loop_exit [OF that] by simp
    with go show ?thesis by (auto simp: Let_def stagnation_def)
  qed
qed

text \<open>
  C5, as amended. In the batch context a stagnation exit happens only at the tick whose
  index is \<open>int(series_length * halftime_fraction)\<close> as the program computes it: the
  product of the double arithmetic, truncated towards zero (its floor when it is not
  negative, its ceiling when it is). It happens only with the smoothed price of that tick
  strictly below \<open>start_price + gain_threshold\<close>; and when the loop processes a tick with
  defined prices, it exits there by stagnation exactly when the tick has that index, the
  smoothed price is below that bound, and neither of the two earlier conditions holds.
\<close>

theorem stagnation_exit_at_halftime:
  "(exit_of P data start = Some ev \<and> ex_trigger ev = Stagnation \<longrightarrow>
      int (ex_idx ev) =
        (let q = times_of (float_mul P) (real (length data)) (halftime_fraction P)
         in if 0 \<le> q then \<lfloor>q\<rfloor> else \<lceil>q\<rceil>)
      \<and> (\<exists>sm. smoothed_full_of P data ! ex_idx ev = Some sm
               \<and> sm < start + gain_threshold P))
   \<and> ((\<exists>ev'. position_loop P start (halftime_index_of P data) idx mg
                 ((Some sm, Some rp) # rest) = Some ev'
              \<and> ex_idx ev' = idx \<and> ex_trigger ev' = Stagnation)
       \<longleftrightarrow> (\<not> peak_drop P (max mg (sm - start)) (sm - start)
            \<and> \<not> retracement P (max mg (sm - start)) (sm - start)
            \<and> int idx =
                 (let q = times_of (float_mul P) (real (length data)) (halftime_fraction P)
                  in if 0 \<le> q then \<lfloor>q\<rfloor> else \<lceil>q\<rceil>)
            \<and> sm < start + gain_threshold P))"
proof -
  have h: "halftime_index_of P data =
      (let q = times_of (float_mul P) (real (length data)) (halftime_fraction P)
       in if 0 \<le> q then \<lfloor>q\<rfloor> else \<lceil>q\<rceil>)"
    by (simp add: halftime_index_of_def py_int_def Let_def)
  have a: "int (ex_idx ev) = halftime_index_of P data
            \<and> (\<exists>sm. smoothed_full_of P data ! ex_idx ev = Some sm
                     \<and> sm < start + gain_threshold P)"
    if e: "exit_of P data start = Some ev" and t: "ex_trigger ev = Stagnation"
  proof -
    from exit_of_tick [OF e] t obtain sm where
      "smoothed_full_of P data ! ex_idx ev = Some sm"
      "stagnation P start (halftime_index_of P data) (ex_idx ev) sm"
      by auto
    then show ?thesis by (auto simp: stagnation_def)
  qed
  from a position_loop_stagnation_step [of P start "halftime_index_of P data" idx mg sm rp rest]
  show ?thesis unfolding h by blast
qed

text \<open>
  C6. With \<open>halftime_fraction = 1\<close> the index of the stagnation check is the series
  length, which no tick index reaches: every exit of the loop is a peak-drop or a
  retracement, and a position that the loop does not close is closed by the fallback
  after the loop.
\<close>

theorem stagnation_unreachable_at_full_fraction:
  assumes "halftime_fraction P = 1"
  shows "halftime_index_of P data = int (length data)
         \<and> (\<forall>ev. exit_of P data start = Some ev \<longrightarrow>
                ex_idx ev < length data
                \<and> (ex_trigger ev = PeakDrop \<or> ex_trigger ev = Retracement))"
proof -
  have h: "halftime_index_of P data = int (length data)"
    using assms by (simp add: halftime_index_of_def py_int_def)
  have "ex_idx ev < length data \<and> (ex_trigger ev = PeakDrop \<or> ex_trigger ev = Retracement)"
    if e: "exit_of P data start = Some ev" for ev
  proof -
    from exit_of_tick [OF e] obtain sm where
      i: "ex_idx ev < length data" and
      c: "ex_trigger ev = Stagnation \<longrightarrow>
            stagnation P start (halftime_index_of P data) (ex_idx ev) sm"
      by (cases "ex_trigger ev") auto
    have "ex_trigger ev \<noteq> Stagnation"
    proof
      assume "ex_trigger ev = Stagnation"
      with c have "int (ex_idx ev) = int (length data)" by (simp add: stagnation_def h)
      with i show False by simp
    qed
    with i show ?thesis by (cases "ex_trigger ev") simp_all
  qed
  with h show ?thesis by blast
qed

subsection \<open>Concrete runs\<close>

lemmas exit_eval =
  exit_of_def halftime_index_of_def smoothed_full_of_def prices_of_def smooth_next_def
  py_int_def peak_drop_def retracement_def stagnation_def default_params_def Let_def
  series_def sell_price_of_def

lemmas sell_eval =
  evaluate_sells_for_ticker_def GAIN_THRESHOLD_def FALL_FRACTION_def Let_def

lemmas tick_eval =
  main_loop_prefix_def tick_def update_from_live_files_def ewma_update_def ALPHA_def
  compute_alpha_from_sigma_minutes_def SIGMA_REF_def SAMPLES_PER_MINUTE_def
  ticker_file_def sold_price_def

lemma exit_of_series_30_70_0:
  "exit_of default_params (series [30, 70, 0]) (3 / 10) =
     Some \<lparr> ex_idx = 2, ex_trigger = PeakDrop, ex_sell_price = 0, ex_gain = 0,
            ex_max_gain = 1 / 10 \<rparr>"
  by (simp add: exit_eval)

lemma sale_state_sells:
  "evaluate_sells_for_ticker sale_state ''KX-A'' =
     (True, snd (evaluate_sells_for_ticker sale_state ''KX-A''))"
  by (simp add: sell_eval sale_state_def)

theorem sell_price_at_trigger_witness:
  "exit_of default_params (series [30, 70, 0]) (3 / 10) =
     Some \<lparr> ex_idx = 2, ex_trigger = PeakDrop, ex_sell_price = 0, ex_gain = 0,
            ex_max_gain = 1 / 10 \<rparr>
   \<and> prices_of (series [30, 70, 0]) ! 2 = Some 0
   \<and> smoothed_full_of default_params (series [30, 70, 0]) ! 2 = Some (3 / 10)
   \<and> sell_price_of default_params (series [30, 70, 0]) (3 / 10) = 0
   \<and> fst (evaluate_sells_for_ticker sale_state ''KX-A'')
   \<and> console (snd (evaluate_sells_for_ticker sale_state ''KX-A''))
       = [Sold ''KX-A'' (32 / 100) (2 / 10)]"
proof -
  let ?ev = "\<lparr> ex_idx = 2, ex_trigger = PeakDrop, ex_sell_price = 0, ex_gain = 0,
               ex_max_gain = 1 / 10 \<rparr>"
  let ?st' = "snd (evaluate_sells_for_ticker sale_state ''KX-A'')"
  note t = sell_price_at_trigger [of default_params "series [30, 70, 0]" "3 / 10" ?ev
      sale_state "''KX-A''" ?st']
  from t exit_of_series_30_70_0
  have b: "prices_of (series [30, 70, 0]) ! 2 = Some 0"
    "sell_price_of default_params (series [30, 70, 0]) (3 / 10) = 0"
    by simp_all
  have s: "smoothed_full_of default_params (series [30, 70, 0]) ! 2 = Some (3 / 10)"
    by (simp add: exit_eval)
  from t sale_state_sells
  obtain b0 cur where "map_of (active_bets sale_state) ''KX-A'' = Some b0"
    "map_of (smoothed sale_state) ''KX-A'' = Some cur"
    "console ?st' = console sale_state @ [Sold ''KX-A'' cur (b_bet b0 * (cur - b_start_price b0))]"
    by blast
  then have c: "console ?st' = [Sold ''KX-A'' (32 / 100) (2 / 10)]"
    by (auto simp: sale_state_def)
  have f: "fst (evaluate_sells_for_ticker sale_state ''KX-A'')"
    using sale_state_sells by (metis fst_conv)
  from exit_of_series_30_70_0 b s c f show ?thesis by blast
qed

text \<open>
  C1 as stated fails in the live context. After a startup at \<open>0.30\<close>, nine samples at
  \<open>1.00\<close> and one at \<open>0.00\<close>, the runner sells on the last iteration: the raw price of that
  tick is \<open>0\<close>, the price of the sale is the smoothed one, about \<open>0.329\<close>.
\<close>

theorem live_sell_price_counterexample:
  "map sold_price (console (main_loop_prefix (ticker_file [30])
       [ticker_file [30, 100],
        ticker_file [30, 100, 100],
        ticker_file [30, 100, 100, 100],
        ticker_file [30, 100, 100, 100, 100],
        ticker_file [30, 100, 100, 100, 100, 100],
        ticker_file [30, 100, 100, 100, 100, 100, 100],
        ticker_file [30, 100, 100, 100, 100, 100, 100, 100],
        ticker_file [30, 100, 100, 100, 100, 100, 100, 100, 100],
        ticker_file [30, 100, 100, 100, 100, 100, 100, 100, 100, 100],
        ticker_file [30, 100, 100, 100, 100, 100, 100, 100, 100, 100, 0]]))
     = [None, Some (3163983020936957886264629732153 / 9607123735028101968664996085760)]
   \<and> load_last_price_from_jsonl
        (map_of (ticker_file [30, 100, 100, 100, 100, 100, 100, 100, 100, 100, 0])
           ''KX-A.jsonl'') = Some 0
   \<and> (3163983020936957886264629732153 / 9607123735028101968664996085760 :: real) \<noteq> 0"
  by (simp add: live_eval tick_eval sell_eval)

lemma open_position_series_30_70_0:
  "open_position default_params (series [30, 70, 0]) = Some (3 / 10)"
  by (simp add: batch_eval series_def)

theorem realized_profit_formulas_witness:
  "open_position default_params (series [30, 70, 0]) = Some (3 / 10)
   \<and> (3 / 10 :: real) \<noteq> 0
   \<and> simulate_position default_params (series [30, 70, 0]) = Inr (2 * (0 / (3 / 10) - 1))
   \<and> fst (evaluate_sells_for_ticker sale_state ''KX-A'')
   \<and> map_of (sold_games (snd (evaluate_sells_for_ticker sale_state ''KX-A''))) ''KX-A''
        = Some (10 * (32 / 100 - 30 / 100))
   \<and> bankroll (snd (evaluate_sells_for_ticker sale_state ''KX-A''))
        = 0 + 10 * (32 / 100 - 30 / 100)"
proof -
  let ?st' = "snd (evaluate_sells_for_ticker sale_state ''KX-A'')"
  note t = realized_profit_formulas [of default_params "series [30, 70, 0]" "3 / 10"
      sale_state "''KX-A''" ?st']
  have sp: "sell_price_of default_params (series [30, 70, 0]) (3 / 10) = 0"
    by (simp add: sell_price_of_def exit_of_series_30_70_0)
  from t open_position_series_30_70_0
  have "simulate_position default_params (series [30, 70, 0])
          = Inr (FLAT_BET_AMOUNT * (sell_price_of default_params (series [30, 70, 0]) (3 / 10)
                   / (3 / 10) - 1))"
    by simp
  then have b: "simulate_position default_params (series [30, 70, 0])
                  = Inr (2 * (0 / (3 / 10) - 1))"
    by (simp add: sp FLAT_BET_AMOUNT_def)
  from t sale_state_sells
  obtain b0 cur where "map_of (active_bets sale_state) ''KX-A'' = Some b0"
    "map_of (smoothed sale_state) ''KX-A'' = Some cur"
    "map_of (sold_games ?st') ''KX-A'' = Some (b_bet b0 * (cur - b_start_price b0))"
    "bankroll ?st' = bankroll sale_state + b_bet b0 * (cur - b_start_price b0)"
    by blast
  then have l: "map_of (sold_games ?st') ''KX-A'' = Some (10 * (32 / 100 - 30 / 100))"
    "bankroll ?st' = 0 + 10 * (32 / 100 - 30 / 100)"
    by (auto simp: sale_state_def)
  have f: "fst (evaluate_sells_for_ticker sale_state ''KX-A'')"
    using sale_state_sells by (metis fst_conv)
  from open_position_series_30_70_0 b l f show ?thesis by simp
qed

lemma exit_of_half_series:
  "exit_of (default_params\<lparr> halftime_fraction := 1 / 2 \<rparr>) (series [30, 31, 30, 30]) (3 / 10) =
     Some \<lparr> ex_idx = 2, ex_trigger = Stagnation, ex_sell_price = 3 / 10, ex_gain = 3 / 1600,
            ex_max_gain = 1 / 400 \<rparr>"
  by (simp add: exit_eval)

theorem stagnation_exit_at_halftime_witness:
  "exit_of (default_params\<lparr> halftime_fraction := 1 / 2 \<rparr>) (series [30, 31, 30, 30]) (3 / 10) =
       Some \<lparr> ex_idx = 2, ex_trigger = Stagnation, ex_sell_price = 3 / 10, ex_gain = 3 / 1600,
              ex_max_gain = 1 / 400 \<rparr>
   \<and> times_of (float_mul (default_params\<lparr> halftime_fraction := 1 / 2 \<rparr>))
        (real (length (series [30, 31, 30, 30]))) (1 / 2) = 2
   \<and> int 2 = \<lfloor>2 :: real\<rfloor>
   \<and> (\<exists>sm. smoothed_full_of (default_params\<lparr> halftime_fraction := 1 / 2 \<rparr>)
               (series [30, 31, 30, 30]) ! 2 = Some sm
             \<and> sm < 3 / 10 + 3 / 100)"
proof -
  let ?P = "default_params\<lparr> halftime_fraction := 1 / 2 \<rparr>"
  let ?d = "series [30, 31, 30, 30]"
  let ?ev = "\<lparr> ex_idx = 2, ex_trigger = Stagnation, ex_sell_price = 3 / 10, ex_gain = 3 / 1600,
              ex_max_gain = 1 / 400 \<rparr>"
  have t: "ex_trigger ?ev = Stagnation" by simp
  have q: "times_of (float_mul ?P) (real (length ?d)) (1 / 2) = 2"
    by (simp add: default_params_def series_def)
  from stagnation_exit_at_halftime [of ?P ?d "3 / 10" ?ev] exit_of_half_series t
  have "int (ex_idx ?ev) =
        (let q = times_of (float_mul ?P) (real (length ?d)) (halftime_fraction ?P)
         in if 0 \<le> q then \<lfloor>q\<rfloor> else \<lceil>q\<rceil>)
        \<and> (\<exists>sm. smoothed_full_of ?P ?d ! ex_idx ?ev = Some sm
                 \<and> sm < 3 / 10 + gain_threshold ?P)"
    by blast
  then have "int 2 = \<lfloor>2 :: real\<rfloor>
        \<and> (\<exists>sm. smoothed_full_of ?P ?d ! 2 = Some sm \<and> sm < 3 / 10 + 3 / 100)"
    by (simp add: q default_params_def)
  with exit_of_half_series q show ?thesis by blast
qed

text \<open>
  C5 as stated fails: the index is not the floor of the product. With
  \<open>halftime_fraction = -0.5\<close> and a series of one record at \<open>0.30\<close> the product is \<open>-0.5\<close>,
  exactly so in double arithmetic, and \<open>int\<close> makes it \<open>0\<close>: the position opened at
  \<open>0.30\<close> is closed by stagnation at index \<open>0\<close>, while the floor is \<open>-1\<close>.
\<close>

theorem stagnation_index_counterexample:
  "open_position (default_params\<lparr> halftime_fraction := - (1 / 2) \<rparr>) (series [30]) = Some (3 / 10)
   \<and> exit_of (default_params\<lparr> halftime_fraction := - (1 / 2) \<rparr>) (series [30]) (3 / 10) =
       Some \<lparr> ex_idx = 0, ex_trigger = Stagnation, ex_sell_price = 3 / 10, ex_gain = 0,
              ex_max_gain = 0 \<rparr>
   \<and> \<lfloor>real (length (series [30])) * (- (1 / 2))\<rfloor> = - 1
   \<and> int 0 \<noteq> \<lfloor>real (length (series [30])) * (- (1 / 2))\<rfloor>"
proof -
  have o: "open_position (default_params\<lparr> halftime_fraction := - (1 / 2) \<rparr>) (series [30])
             = Some (3 / 10)"
    by (simp add: batch_eval series_def del: not_None_eq)
  have e: "exit_of (default_params\<lparr> halftime_fraction := - (1 / 2) \<rparr>) (series [30]) (3 / 10) =
       Some \<lparr> ex_idx = 0, ex_trigger = Stagnation, ex_sell_price = 3 / 10, ex_gain = 0,
              ex_max_gain = 0 \<rparr>"
    by (simp add: exit_eval ceiling_def)
  have f: "\<lfloor>real (length (series [30])) * (- (1 / 2))\<rfloor> = - 1"
    by (simp add: series_def)
  from o e f show ?thesis by simp
qed

theorem stagnation_unreachable_at_full_fraction_witness:
  "halftime_fraction default_params = 1
   \<and> halftime_index_of default_params (series [30, 70, 0]) = 3
   \<and> exit_of default_params (series [30, 70, 0]) (3 / 10) =
       Some \<lparr> ex_idx = 2, ex_trigger = PeakDrop, ex_sell_price = 0, ex_gain = 0,
              ex_max_gain = 1 / 10 \<rparr>
   \<and> ex_idx \<lparr> ex_idx = 2, ex_trigger = PeakDrop, ex_sell_price = 0, ex_gain = 0,
              ex_max_gain = 1 / 10 \<rparr> < length (series [30, 70, 0])
   \<and> (ex_trigger \<lparr> ex_idx = 2, ex_trigger = PeakDrop, ex_sell_price = 0, ex_gain = 0,
                   ex_max_gain = 1 / 10 \<rparr> = PeakDrop
       \<or> ex_trigger \<lparr> ex_idx = 2, ex_trigger = PeakDrop, ex_sell_price = 0, ex_gain = 0,
                     ex_max_gain = 1 / 10 \<rparr> = Retracement)"
proof -
  let ?ev = "\<lparr> ex_idx = 2, ex_trigger = PeakDrop, ex_sell_price = 0, ex_gain = 0,
               ex_max_gain = 1 / 10 \<rparr>"
  have h: "halftime_fraction default_params = 1" by (simp add: default_params_def)
  have l: "int (length (series [30, 70, 0])) = 3" by (simp add: series_def)
  note t = stagnation_unreachable_at_full_fraction [OF h, of "series [30, 70, 0]" "3 / 10"]
  from t l have i: "halftime_index_of default_params (series [30, 70, 0]) = 3"
    by simp
  from t exit_of_series_30_70_0
  have e: "ex_idx ?ev < length (series [30, 70, 0])
           \<and> (ex_trigger ?ev = PeakDrop \<or> ex_trigger ?ev = Retracement)"
    by blast
  from h i exit_of_series_30_70_0 e show ?thesis by blast
qed

subsection \<open>Order of the exit conditions\<close>

text \<open>
  C4 as stated fails: the conditions are not mutually exclusive. With the default
  parameters the series \<open>0.30, 0.70, 0.00\<close> opens a position at \<open>0.30\<close>, reaches the peak
  gain \<open>0.10\<close>, and at the third tick the gain is \<open>0\<close>: the peak-drop and the retracement
  condition hold together there.
\<close>

theorem triggers_overlap_counterexample:
  "open_position default_params (series [30, 70, 0]) = Some (3 / 10)
   \<and> exit_of default_params (series [30, 70, 0]) (3 / 10) =
       Some \<lparr> ex_idx = 2, ex_trigger = PeakDrop, ex_sell_price = 0, ex_gain = 0,
              ex_max_gain = 1 / 10 \<rparr>
   \<and> peak_drop default_params (1 / 10) 0
   \<and> retracement default_params (1 / 10) 0"
proof -
  have "peak_drop default_params (1 / 10) 0" "retracement default_params (1 / 10) 0"
    by (simp_all add: peak_drop_def retracement_def default_params_def)
  with open_position_series_30_70_0 exit_of_series_30_70_0 show ?thesis by blast
qed

lemma position_loop_any_trigger:
  "map_option (\<lambda>ev. (ex_idx ev, ex_sell_price ev)) (position_loop P start h idx mg zs)
     = any_trigger_exit P start h idx mg zs"
  by (induction P start h idx mg zs rule: position_loop.induct) (simp_all add: Let_def)

text \<open>
  C4, as amended. The exit conditions may hold together at one tick, and the order in
  which they are tested decides only which one is credited with the exit: the batch loop
  sells at the first tick with defined prices at which at least one of the three
  conditions holds, at the raw price of that tick, and the live runner sells a ticker
  exactly when at least one of its two conditions holds.
\<close>

theorem sell_outcome_independent_of_order:
  "map_option (\<lambda>ev. (ex_idx ev, ex_sell_price ev)) (position_loop P start h idx mg zs)
     = any_trigger_exit P start h idx mg zs
   \<and> fst (evaluate_sells_for_ticker st t) =
       (case map_of (active_bets st) t of
          None \<Rightarrow> False
        | Some b \<Rightarrow>
            (case map_of (smoothed st) t of
               None \<Rightarrow> False
             | Some cur \<Rightarrow>
                 (let gain = cur - b_start_price b;
                      mg' = max (b_max_gain b) gain
                  in (mg' \<ge> GAIN_THRESHOLD \<and> gain < GAIN_THRESHOLD)
                     \<or> (mg' > GAIN_THRESHOLD \<and> gain \<le> mg' * FALL_FRACTION))))"
proof -
  have "fst (evaluate_sells_for_ticker st t) =
       (case map_of (active_bets st) t of
          None \<Rightarrow> False
        | Some b \<Rightarrow>
            (case map_of (smoothed st) t of
               None \<Rightarrow> False
             | Some cur \<Rightarrow>
                 (let gain = cur - b_start_price b;
                      mg' = max (b_max_gain b) gain
                  in (mg' \<ge> GAIN_THRESHOLD \<and> gain < GAIN_THRESHOLD)
                     \<or> (mg' > GAIN_THRESHOLD \<and> gain \<le> mg' * FALL_FRACTION))))"
    by (auto simp: evaluate_sells_for_ticker_def Let_def max_def split: option.splits)
  with position_loop_any_trigger show ?thesis by blast
qed

subsection \<open>Unparseable files\<close>

lemmas pairs_eval =
  run_simulation_def week_run_def get_game_pairs_def setdefault_append_def game_key_def
  endswith_def load_json_def START_BANKROLL_def Let_def

text \<open>
  C3. The claim asks for an unparseable file to be skipped. \<open>run_simulation\<close> calls
  \<open>json.load\<close> with no handler: a week with a pair of files of which one is unparseable
  ends the run with the decoder's exception, and no bankroll is returned.
\<close>

theorem run_simulation_aborts_on_unparseable_file:
  "run_simulation default_params
     [(''week1'', Directory [(''GAME1-A.json'', Unparseable),
                             (''GAME1-B.json'', Parsed (series [30, 70, 0]))])]
     = Inl JSONDecodeError"
  by (simp add: pairs_eval)

subsection \<open>Pairing rule\<close>

lemma filter_update_same:
  "[q \<leftarrow> AList.update k v ps. fst q \<noteq> k] = [q \<leftarrow> ps. fst q \<noteq> k]"
  by (induction ps) auto

lemma map_of_filter_other_key:
  "k' \<noteq> k \<Longrightarrow> map_of [q \<leftarrow> ps. fst q \<noteq> k] k' = map_of ps k'"
  by (induction ps) auto

lemma setdefault_append_same_key:
  "game_key f = k \<Longrightarrow>
   [q \<leftarrow> setdefault_append g f. fst q \<noteq> k] = [q \<leftarrow> g. fst q \<noteq> k]"
  by (simp add: setdefault_append_def filter_update_same split: option.splits)

lemma setdefault_append_other_key:
  assumes "game_key f \<noteq> k"
  shows "[q \<leftarrow> setdefault_append g f. fst q \<noteq> k]
           = setdefault_append [q \<leftarrow> g. fst q \<noteq> k] f"
proof (cases "map_of g (game_key f)")
  case None
  with assms show ?thesis
    by (simp add: setdefault_append_def map_of_filter_other_key)
next
  case (Some v)
  with assms show ?thesis
    using update_filter [of k "game_key f" "v @ [f]" g]
    by (simp add: setdefault_append_def map_of_filter_other_key)
qed

lemma foldl_setdefault_append_drop_key:
  "foldl setdefault_append [q \<leftarrow> g. fst q \<noteq> k] [f \<leftarrow> files. game_key f \<noteq> k]
     = [q \<leftarrow> foldl setdefault_append g files. fst q \<noteq> k]"
proof (induction files arbitrary: g)
  case Nil
  then show ?case by simp
next
  case (Cons f files)
  show ?case
  proof (cases "game_key f = k")
    case True
    with Cons [of "setdefault_append g f"] show ?thesis
      by (simp add: setdefault_append_same_key)
  next
    case False
    with Cons [of "setdefault_append g f"] show ?thesis
      by (simp add: setdefault_append_other_key)
  qed
qed

lemma distinct_setdefault_append:
  "distinct (map fst g) \<Longrightarrow> distinct (map fst (setdefault_append g f))"
  by (auto simp: setdefault_append_def distinct_update map_of_eq_None_iff split: option.splits)

lemma distinct_foldl_setdefault_append:
  "distinct (map fst g) \<Longrightarrow> distinct (map fst (foldl setdefault_append g files))"
  by (induction files arbitrary: g) (simp_all add: distinct_setdefault_append)

lemma map_of_setdefault_append:
  "map_of (setdefault_append g f) k =
     (if game_key f = k
      then Some ((case map_of g k of None \<Rightarrow> [] | Some v \<Rightarrow> v) @ [f])
      else map_of g k)"
  by (auto simp: setdefault_append_def update_conv' map_add_def split: option.splits)

lemma map_of_foldl_setdefault_append:
  "map_of (foldl setdefault_append g files) k =
     (case map_of g k of
        None \<Rightarrow> (if [f \<leftarrow> files. game_key f = k] = [] then None
                  else Some [f \<leftarrow> files. game_key f = k])
      | Some v \<Rightarrow> Some (v @ [f \<leftarrow> files. game_key f = k]))"
proof (induction files arbitrary: g)
  case Nil
  then show ?case by (simp split: option.splits)
next
  case (Cons f files)
  show ?case
    unfolding foldl_Cons Cons [of "setdefault_append g f"] map_of_setdefault_append
    by (simp split: option.splits)
qed

lemma map_of_filter_distinct:
  "distinct (map fst xs) \<Longrightarrow>
   map_of (filter Q xs) k =
     (case map_of xs k of None \<Rightarrow> None | Some v \<Rightarrow> if Q (k, v) then Some v else None)"
proof (induction xs)
  case Nil
  then show ?case by simp
next
  case (Cons x xs)
  obtain k' v' where x: "x = (k', v')" by (cases x)
  from Cons.prems x have nin: "map_of xs k' = None" and d: "distinct (map fst xs)"
    by (simp_all add: map_of_eq_None_iff)
  from Cons.IH [OF d] nin x show ?case
    by (cases "k = k'") (simp_all split: option.splits)
qed

lemma map_of_get_game_pairs:
  "map_of (get_game_pairs listing) k =
     (if length [f \<leftarrow> listing. endswith ''.json'' f \<and> game_key f = k] = 2
      then Some [f \<leftarrow> listing. endswith ''.json'' f \<and> game_key f = k]
      else None)"
proof -
  let ?files = "[f \<leftarrow> listing. endswith ''.json'' f]"
  let ?G = "foldl setdefault_append [] ?files"
  have d: "distinct (map fst ?G)"
    by (rule distinct_foldl_setdefault_append) simp
  have f: "[f \<leftarrow> ?files. game_key f = k] = [f \<leftarrow> listing. endswith ''.json'' f \<and> game_key f = k]"
    by simp
  have m: "map_of ?G k =
      (if [f \<leftarrow> listing. endswith ''.json'' f \<and> game_key f = k] = [] then None
       else Some [f \<leftarrow> listing. endswith ''.json'' f \<and> game_key f = k])"
    unfolding map_of_foldl_setdefault_append f by simp
  have g: "get_game_pairs listing = [(k, v) \<leftarrow> ?G. length v = 2]"
    by (simp add: get_game_pairs_def Let_def)
  have "map_of [(k, v) \<leftarrow> ?G. length v = 2] k =
      (case map_of ?G k of
         None \<Rightarrow> None
       | Some v \<Rightarrow> if (case (k, v) of (k, v) \<Rightarrow> length v = 2) then Some v else None)"
    by (rule map_of_filter_distinct [OF d])
  then show ?thesis
    unfolding g m by auto
qed


lemma set_update_cases:
  "(k', v') \<in> set (AList.update k w g) \<Longrightarrow> (k', v') \<in> set g \<or> (k' = k \<and> v' = w)"
  by (induction g) (auto split: if_splits)

lemma setdefault_append_keys_of_values:
  assumes "\<forall>(k', v) \<in> set g. \<forall>f' \<in> set v. game_key f' = k'"
  shows "\<forall>(k', v) \<in> set (setdefault_append g f). \<forall>f' \<in> set v. game_key f' = k'"
proof (cases "map_of g (game_key f)")
  case None
  with assms show ?thesis by (auto simp: setdefault_append_def)
next
  case (Some v0)
  then have in_g: "(game_key f, v0) \<in> set g" by (rule map_of_SomeD)
  show ?thesis
  proof (clarify)
    fix k' v f'
    assume m: "(k', v) \<in> set (setdefault_append g f)" and f': "f' \<in> set v"
    from m Some have "(k', v) \<in> set (AList.update (game_key f) (v0 @ [f]) g)"
      by (simp add: setdefault_append_def)
    from set_update_cases [OF this] show "game_key f' = k'"
    proof
      assume "(k', v) \<in> set g"
      with assms f' show ?thesis by auto
    next
      assume "k' = game_key f \<and> v = v0 @ [f]"
      with assms in_g f' show ?thesis by auto
    qed
  qed
qed

lemma foldl_setdefault_append_keys_of_values:
  "\<forall>(k', v) \<in> set g. \<forall>f' \<in> set v. game_key f' = k' \<Longrightarrow>
   \<forall>(k', v) \<in> set (foldl setdefault_append g files). \<forall>f' \<in> set v. game_key f' = k'"
proof (induction files arbitrary: g)
  case Nil
  then show ?case by simp
next
  case (Cons f files)
  from Cons.IH [OF setdefault_append_keys_of_values [OF Cons.prems]]
  show ?case by simp
qed

lemma get_game_pairs_keys_of_values:
  "(k', v) \<in> set (get_game_pairs listing) \<Longrightarrow> f \<in> set v \<Longrightarrow> game_key f = k'"
  using foldl_setdefault_append_keys_of_values
    [of "[]" "[f \<leftarrow> listing. endswith ''.json'' f]"]
  by (auto simp: get_game_pairs_def Let_def)

lemma map_of_filter_fst:
  "Q x \<Longrightarrow> map_of [p \<leftarrow> xs. Q (fst p)] x = map_of xs x"
  by (induction xs) auto

lemma game_loop_cong:
  "\<forall>f \<in> set fs. load_json w1 f = load_json w2 f \<Longrightarrow>
   game_loop P w1 gp fs = game_loop P w2 gp fs"
  by (induction fs arbitrary: gp) (simp_all split: sum.splits)

lemma pairs_loop_cong:
  "\<forall>(k', v) \<in> set ps. \<forall>f \<in> set v. load_json w1 f = load_json w2 f \<Longrightarrow>
   pairs_loop P w1 acc ps = pairs_loop P w2 acc ps"
proof (induction ps arbitrary: acc)
  case Nil
  then show ?case by simp
next
  case (Cons p ps)
  obtain k' v where p: "p = (k', v)" by (cases p)
  from Cons.prems p have g: "game_loop P w1 0 v = game_loop P w2 0 v"
    by (intro game_loop_cong) auto
  from Cons.prems have r: "\<forall>(k', v) \<in> set ps. \<forall>f \<in> set v. load_json w1 f = load_json w2 f"
    by auto
  from Cons.IH [OF r] g p show ?case by (simp split: sum.splits)
qed

lemma get_game_pairs_drop_key:
  "get_game_pairs [f \<leftarrow> listing. \<not> (endswith ''.json'' f \<and> game_key f = k)]
     = [q \<leftarrow> get_game_pairs listing. fst q \<noteq> k]"
proof -
  have f: "[f \<leftarrow> [f \<leftarrow> listing. \<not> (endswith ''.json'' f \<and> game_key f = k)]. endswith ''.json'' f]
          = [f \<leftarrow> [f \<leftarrow> listing. endswith ''.json'' f]. game_key f \<noteq> k]"
    by (induction listing) auto
  have c: "[(k', v) \<leftarrow> [q \<leftarrow> G. fst q \<noteq> k]. length v = 2]
          = [q \<leftarrow> [(k', v) \<leftarrow> G. length v = 2]. fst q \<noteq> k]" for G :: "(string \<times> string list) list"
    by (induction G) auto
  have d: "foldl setdefault_append [] [f \<leftarrow> [f \<leftarrow> listing. endswith ''.json'' f]. game_key f \<noteq> k]
          = [q \<leftarrow> foldl setdefault_append [] [f \<leftarrow> listing. endswith ''.json'' f]. fst q \<noteq> k]"
    using foldl_setdefault_append_drop_key [where g = "[]" and k = k
        and files = "[f \<leftarrow> listing. endswith ''.json'' f]"]
    by (simp del: filter_filter)
  show ?thesis
    unfolding get_game_pairs_def Let_def f d c ..
qed

text \<open>
  C9. In a week directory the keys that are simulated are exactly those shared by two
  \<open>.json\<close> files, with those two files. A key with any other number of files
  contributes nothing: the week leaves the bankroll (or ends in the exception) exactly as
  it would if the files of that key were not in the directory.
\<close>

theorem unpaired_key_contributes_nothing:
  "map_of (get_game_pairs (map fst week)) k =
     (if length [f \<leftarrow> map fst week. endswith ''.json'' f \<and> game_key f = k] = 2
      then Some [f \<leftarrow> map fst week. endswith ''.json'' f \<and> game_key f = k]
      else None)
   \<and> (length [f \<leftarrow> map fst week. endswith ''.json'' f \<and> game_key f = k] \<noteq> 2 \<longrightarrow>
        week_run P week acc
          = week_run P [p \<leftarrow> week. \<not> (endswith ''.json'' (fst p) \<and> game_key (fst p) = k)] acc)"
proof (intro conjI impI)
  show "map_of (get_game_pairs (map fst week)) k =
     (if length [f \<leftarrow> map fst week. endswith ''.json'' f \<and> game_key f = k] = 2
      then Some [f \<leftarrow> map fst week. endswith ''.json'' f \<and> game_key f = k]
      else None)"
    by (rule map_of_get_game_pairs)
next
  let ?Q = "\<lambda>f. \<not> (endswith ''.json'' f \<and> game_key f = k)"
  let ?week' = "[p \<leftarrow> week. ?Q (fst p)]"
  let ?pairs = "get_game_pairs (map fst week)"
  assume n: "length [f \<leftarrow> map fst week. endswith ''.json'' f \<and> game_key f = k] \<noteq> 2"
  then have "map_of ?pairs k = None"
    by (simp add: map_of_get_game_pairs)
  then have nk: "k \<notin> fst ` set ?pairs"
    by (simp add: map_of_eq_None_iff)
  then have same: "[q \<leftarrow> ?pairs. fst q \<noteq> k] = ?pairs"
    by (auto simp: filter_id_conv)
  have "map fst ?week' = [f \<leftarrow> map fst week. ?Q f]"
    by (induction week) auto
  then have pairs': "get_game_pairs (map fst ?week') = ?pairs"
    using get_game_pairs_drop_key [of k "map fst week"] same by simp
  have "\<forall>(k', v) \<in> set ?pairs. \<forall>f \<in> set v. load_json week f = load_json ?week' f"
  proof (clarify)
    fix k' v f
    assume m: "(k', v) \<in> set ?pairs" and f: "f \<in> set v"
    from get_game_pairs_keys_of_values [OF m f] have "game_key f = k'" .
    moreover from m nk have "k' \<noteq> k" by force
    ultimately have "?Q f" by simp
    then have "map_of ?week' f = map_of week f"
      by (rule map_of_filter_fst)
    then show "load_json week f = load_json ?week' f"
      by (simp add: load_json_def)
  qed
  then have "pairs_loop P week acc ?pairs = pairs_loop P ?week' acc ?pairs"
    by (rule pairs_loop_cong)
  then show "week_run P week acc = week_run P ?week' acc"
    unfolding week_run_def pairs' .
qed

lemma exit_of_series_20_20:
  "exit_of default_params (series [20, 20]) (1 / 5) = None"
  by (simp add: exit_eval)

lemma open_position_series_20_20:
  "open_position default_params (series [20, 20]) = Some (1 / 5)"
  by (simp add: batch_eval series_def del: not_None_eq)

lemma last_price_series_20_20:
  "first_defined (rev (prices_of (series [20, 20]))) = Some (1 / 5)"
  by (simp add: prices_of_def series_def)

lemma simulate_position_series_20_20:
  "simulate_position default_params (series [20, 20]) = Inr 0"
  by (simp add: simulate_position_open open_position_series_20_20 sell_price_of_def
      exit_of_series_20_20 last_price_series_20_20)

lemma simulate_position_series_30_70_0:
  "simulate_position default_params (series [30, 70, 0]) = Inr (- 2)"
  by (simp add: simulate_position_open open_position_series_30_70_0 sell_price_of_def
      exit_of_series_30_70_0 FLAT_BET_AMOUNT_def)

lemma week_run_week_two: "week_run default_params week_two 20 = Inr 18"
  by (simp add: week_two_def week_run_def get_game_pairs_def setdefault_append_def
      game_key_def endswith_def load_json_def simulate_position_series_20_20
      simulate_position_series_30_70_0)

theorem unpaired_key_contributes_nothing_witness:
  "length [f \<leftarrow> map fst week_three_and_two. endswith ''.json'' f \<and> game_key f = ''NFL-G1''] = 3
   \<and> (3::nat) \<noteq> 2
   \<and> map_of (get_game_pairs (map fst week_three_and_two)) ''NFL-G1'' = None
   \<and> map_of (get_game_pairs (map fst week_three_and_two)) ''NFL-G2''
       = Some [''NFL-G2-KC.json'', ''NFL-G2-LAC.json'']
   \<and> week_run default_params week_three_and_two 20 = week_run default_params week_two 20
   \<and> week_run default_params week_three_and_two 20 = Inr 18"
proof -
  have n1: "[f \<leftarrow> map fst week_three_and_two. endswith ''.json'' f \<and> game_key f = ''NFL-G1'']
            = [''NFL-G1-DAL.json'', ''NFL-G1-PHI.json'', ''NFL-G1-TIE.json'']"
    by (simp add: week_three_and_two_def endswith_def game_key_def)
  have n2: "[f \<leftarrow> map fst week_three_and_two. endswith ''.json'' f \<and> game_key f = ''NFL-G2'']
            = [''NFL-G2-KC.json'', ''NFL-G2-LAC.json'']"
    by (simp add: week_three_and_two_def endswith_def game_key_def)
  have w: "[p \<leftarrow> week_three_and_two.
             \<not> (endswith ''.json'' (fst p) \<and> game_key (fst p) = ''NFL-G1'')] = week_two"
    by (simp add: week_three_and_two_def week_two_def endswith_def game_key_def)
  note t1 = unpaired_key_contributes_nothing [of week_three_and_two "''NFL-G1''" default_params 20]
  note t2 = unpaired_key_contributes_nothing [of week_three_and_two "''NFL-G2''" default_params 20]
  from t1 have a: "map_of (get_game_pairs (map fst week_three_and_two)) ''NFL-G1'' = None"
    unfolding n1 by simp
  from t2 have b: "map_of (get_game_pairs (map fst week_three_and_two)) ''NFL-G2''
       = Some [''NFL-G2-KC.json'', ''NFL-G2-LAC.json'']"
    unfolding n2 by simp
  from t1 have c: "week_run default_params week_three_and_two 20
                     = week_run default_params week_two 20"
    unfolding n1 w by simp
  from n1 a b c week_run_week_two show ?thesis by simp
qed

subsection \<open>Entry at the bounds of the band\<close>

lemma entry_price_series_first:
  "entry_price default_params (series (c # cs)) = Some (real_of_int c / 100)"
  by (simp add: entry_price_def smoothed_full_of_def prices_of_def series_def smooth_next_def
      Let_def)

lemma sell_price_of_series_14_70_0:
  "sell_price_of default_params (series [14, 70, 0]) (14 / 100) = 0"
  by (simp add: exit_eval)

lemma sell_price_of_series_77_100_0:
  "sell_price_of default_params (series [77, 100, 0]) (77 / 100) = 0"
  by (simp add: exit_eval)

theorem entry_band_inclusive_witness:
  "entry_price default_params (series [14, 70, 0]) = Some (14 / 100)
   \<and> simulate_position default_params (series [14, 70, 0]) = Inr (- 2)
   \<and> entry_price default_params (series [77, 100, 0]) = Some (77 / 100)
   \<and> simulate_position default_params (series [77, 100, 0]) = Inr (- 2)
   \<and> entry_price default_params (series [13, 70, 0]) = Some (13 / 100)
   \<and> simulate_position default_params (series [13, 70, 0]) = Inr 0
   \<and> entry_price default_params (series [78, 100, 0]) = Some (78 / 100)
   \<and> simulate_position default_params (series [78, 100, 0]) = Inr 0
   \<and> map_of (active_bets (place_initial_bets init_state
               [(''KX-A.jsonl'', [Record (Some 14)]), (''KX-B.jsonl'', [Record (Some 78)])]))
        ''KX-A'' = Some \<lparr> b_bet = 10, b_start_price = 14 / 100, b_max_gain = 0 \<rparr>
   \<and> map_of (active_bets (place_initial_bets init_state
               [(''KX-A.jsonl'', [Record (Some 14)]), (''KX-B.jsonl'', [Record (Some 78)])]))
        ''KX-B'' = None
   \<and> evaluate_sells_for_ticker (place_initial_bets init_state
               [(''KX-A.jsonl'', [Record (Some 14)]), (''KX-B.jsonl'', [Record (Some 78)])])
        ''KX-B''
      = (False, place_initial_bets init_state
               [(''KX-A.jsonl'', [Record (Some 14)]), (''KX-B.jsonl'', [Record (Some 78)])])"
proof -
  let ?F = "[(''KX-A.jsonl'', [Record (Some 14)]), (''KX-B.jsonl'', [Record (Some 78)])]"
  let ?st = "place_initial_bets init_state ?F"
  have b: "min_start default_params = 14 / 100" "max_start default_params = 77 / 100"
    by (simp_all add: default_params_def)
  have p14: "entry_price default_params (series [14, 70, 0]) = Some (14 / 100)"
    and p77: "entry_price default_params (series [77, 100, 0]) = Some (77 / 100)"
    and p13: "entry_price default_params (series [13, 70, 0]) = Some (13 / 100)"
    and p78: "entry_price default_params (series [78, 100, 0]) = Some (78 / 100)"
    by (simp_all add: entry_price_series_first)
  have s14: "simulate_position default_params (series [14, 70, 0]) = Inr (- 2)"
    using entry_band_inclusive [of default_params "series [14, 70, 0]" ?F "''KX-A''" ?st]
      sell_price_of_series_14_70_0
    by (simp add: p14 b FLAT_BET_AMOUNT_def)
  have s77: "simulate_position default_params (series [77, 100, 0]) = Inr (- 2)"
    using entry_band_inclusive [of default_params "series [77, 100, 0]" ?F "''KX-A''" ?st]
      sell_price_of_series_77_100_0
    by (simp add: p77 b FLAT_BET_AMOUNT_def)
  have s13: "simulate_position default_params (series [13, 70, 0]) = Inr 0"
    using entry_band_inclusive [of default_params "series [13, 70, 0]" ?F "''KX-A''" ?st]
    by (simp add: p13 b)
  have s78: "simulate_position default_params (series [78, 100, 0]) = Inr 0"
    using entry_band_inclusive [of default_params "series [78, 100, 0]" ?F "''KX-A''" ?st]
    by (simp add: p78 b)
  have sm: "smoothed ?st = [(''KX-A'', 14 / 100), (''KX-B'', 78 / 100)]"
    by (simp add: live_eval)
  have la: "map_of (active_bets ?st) ''KX-A''
              = Some \<lparr> b_bet = 10, b_start_price = 14 / 100, b_max_gain = 0 \<rparr>"
    using entry_band_inclusive [of default_params "series [14, 70, 0]" ?F "''KX-A''" ?st]
    by (simp add: sm MIN_START_def MAX_START_def BET_AMOUNT_def)
  have lb: "map_of (active_bets ?st) ''KX-B'' = None"
    using entry_band_inclusive [of default_params "series [14, 70, 0]" ?F "''KX-B''" ?st]
    by (simp add: sm MIN_START_def MAX_START_def BET_AMOUNT_def)
  have ev: "evaluate_sells_for_ticker ?st ''KX-B'' = (False, ?st)"
    using entry_band_inclusive [of default_params "series [14, 70, 0]" ?F "''KX-B''" ?st] lb
    by blast
  from p14 s14 p77 s77 p13 s13 p78 s78 la lb ev show ?thesis by blast
qed

end
